theory Spec2Isabelle
  imports Main
begin

section \<open>The environment of the relay server\<close>

text \<open>
  The server (\<^verbatim>\<open>src/server.js\<close>) talks to three outside parties: HTTP endpoints
  (through \<^verbatim>\<open>fetch\<close>), the Ollama SDK client, and the local \<^verbatim>\<open>ollama\<close> command
  (through \<^verbatim>\<open>execAsync\<close>). Every such interaction is recorded as an event, and the
  answer of the outside world is an oracle of the environment that may depend on all
  the interactions made so far. JavaScript strings are modelled as \<open>string\<close>, a
  character standing for a code unit below 256.
\<close>

type_synonym url = string

text \<open>A JSON value is kept as its text; \<open>json_null\<close> is the text of \<^verbatim>\<open>null\<close>.\<close>

type_synonym json = string

definition json_null :: json where
  "json_null = ''null''"

text \<open>What \<^verbatim>\<open>await response.json()\<close> makes of a response body.\<close>

datatype json_body = Malformed | JsonNull | JsonValue

text \<open>
  The outcome of \<^verbatim>\<open>fetch\<close>: the promise is rejected (connection refused, DNS
  failure, abort after the 10 s timer), or there is a response with its \<^verbatim>\<open>ok\<close>
  flag (status 2xx) and its body.
\<close>

datatype fetch_result = Rejected | Response bool json_body

record exec_options =
  timeout :: nat
  maxBuffer :: "nat option"
  shell :: "string option"

text \<open>
  How a child process started by \<^verbatim>\<open>exec\<close> ends: it exits with a status and the
  captured standard output, it is killed when the timeout expires, its output exceeds
  \<^verbatim>\<open>maxBuffer\<close>, or it could not be started.
\<close>

datatype exec_result = Exited nat string | TimedOut | BufferExceeded | SpawnFailed

record message =
  role :: string
  content :: string

datatype sdk_request =
    SdkList
  | SdkChat string "message list" bool json
  | SdkGenerate string string bool json
  | SdkCreate string string bool
  | SdkDelete string
  | SdkCopy string string
  | SdkShow string
  | SdkPull string bool
  | SdkPush string bool
  | SdkEmbeddings string string

datatype event =
    Fetch url
  | Sdk url sdk_request
  | Exec string exec_options

type_synonym trace = "event list"

record iface =
  family :: string
  internal :: bool
  address :: string

record env =
  OLLAMA_HOST :: "string option"
  networkInterfaces :: "(string \<times> iface list) list"
  fetch :: "trace \<Rightarrow> url \<Rightarrow> fetch_result"
  sdk_call :: "trace \<Rightarrow> url \<Rightarrow> sdk_request \<Rightarrow> string + json"
  sdk_stream :: "trace \<Rightarrow> url \<Rightarrow> sdk_request \<Rightarrow> string + (json list \<times> string option)"
  exec :: "trace \<Rightarrow> string \<Rightarrow> exec_options \<Rightarrow> exec_result"

section \<open>Endpoint probing\<close>

text \<open>
  \<^verbatim>\<open>getLocalIPAddress\<close>: the address of the first interface entry that is IPv4 and
  not internal, in the order of the interface table; \<^verbatim>\<open>"0.0.0.0"\<close> when there is none.
\<close>

fun first_external :: "iface list \<Rightarrow> string option" where
  "first_external [] = None"
| "first_external (i # is) =
     (if family i = ''IPv4'' \<and> \<not> internal i then Some (address i) else first_external is)"

fun scan_interfaces :: "(string \<times> iface list) list \<Rightarrow> string" where
  "scan_interfaces [] = ''0.0.0.0''"
| "scan_interfaces ((name, is) # rest) =
     (case first_external is of Some a \<Rightarrow> a | None \<Rightarrow> scan_interfaces rest)"

definition getLocalIPAddress :: "env \<Rightarrow> string" where
  "getLocalIPAddress e = scan_interfaces (networkInterfaces e)"

text \<open>
  \<^verbatim>\<open>testOllamaConnection(host)\<close>: one GET of \<^verbatim>\<open>${host}/api/version\<close>. The result is
  true only when the response is \<^verbatim>\<open>ok\<close> and its body parses to a value whose
  \<^verbatim>\<open>version\<close> property can be read; every exception is caught and gives false.
\<close>

definition testOllamaConnection :: "env \<Rightarrow> trace \<Rightarrow> url \<Rightarrow> bool \<times> trace" where
  "testOllamaConnection e tr host =
     (let u = host @ ''/api/version'' in
      (case fetch e tr u of
         Rejected \<Rightarrow> False
       | Response ok b \<Rightarrow> (if ok then (case b of JsonValue \<Rightarrow> True | _ \<Rightarrow> False) else False),
       tr @ [Fetch u]))"

text \<open>
  The candidate list of \<^verbatim>\<open>findWorkingOllamaHost\<close>. \<^verbatim>\<open>filter(Boolean)\<close> drops the
  entries that are \<^verbatim>\<open>undefined\<close> (here \<open>None\<close>) or the empty string.
\<close>

fun filter_Boolean :: "string option list \<Rightarrow> string list" where
  "filter_Boolean [] = []"
| "filter_Boolean (None # xs) = filter_Boolean xs"
| "filter_Boolean (Some s # xs) = (if s = [] then filter_Boolean xs else s # filter_Boolean xs)"

definition possibleHosts :: "env \<Rightarrow> url list" where
  "possibleHosts e = filter_Boolean
     [ OLLAMA_HOST e,
       Some ''http://localhost:11434'',
       Some ''http://127.0.0.1:11434'',
       Some (''http://'' @ getLocalIPAddress e @ '':11434''),
       Some ''http://0.0.0.0:11434'',
       Some ''https://lzcollama.ponzs.heiyu.space'',
       Some ''http://baota.ponzs.heiyu.space:11434'',
       Some ''https://a.talkflow.team'',
       Some ''http://host.docker.internal:11434'',
       Some ''http://172.17.0.1:11434'',
       Some ''http://172.18.0.1:11434'',
       Some ''http://192.168.1.1:11434'',
       Some ''http://10.0.0.1:11434'' ]"

text \<open>The configured endpoint as it survives \<^verbatim>\<open>filter(Boolean)\<close>.\<close>

definition explicit_host :: "env \<Rightarrow> url list" where
  "explicit_host e = (case OLLAMA_HOST e of None \<Rightarrow> [] | Some h \<Rightarrow> if h = [] then [] else [h])"

text \<open>
  The loop of \<^verbatim>\<open>findWorkingOllamaHost\<close>: test the hosts one after the other and
  return the first that answers; \<open>None\<close> is \<^verbatim>\<open>null\<close>.
\<close>

fun probe :: "env \<Rightarrow> trace \<Rightarrow> url list \<Rightarrow> url option \<times> trace" where
  "probe e tr [] = (None, tr)"
| "probe e tr (host # hosts) =
     (case testOllamaConnection e tr host of
        (True, tr') \<Rightarrow> (Some host, tr')
      | (False, tr') \<Rightarrow> probe e tr' hosts)"

definition findWorkingOllamaHost :: "env \<Rightarrow> trace \<Rightarrow> url option \<times> trace" where
  "findWorkingOllamaHost e tr = probe e tr (possibleHosts e)"

text \<open>
  The liveness checks of a list of hosts as events, and the answer the \<open>i\<close>-th
  candidate gives when the candidates before it have been checked in order.
\<close>

definition checks :: "url list \<Rightarrow> trace" where
  "checks hosts = map (\<lambda>h. Fetch (h @ ''/api/version'')) hosts"

definition answers :: "env \<Rightarrow> trace \<Rightarrow> url list \<Rightarrow> nat \<Rightarrow> bool" where
  "answers e tr hosts i = fst (testOllamaConnection e (tr @ checks (take i hosts)) (hosts ! i))"

section \<open>The command-line transport\<close>

text \<open>
  \<^verbatim>\<open>execAsync\<close> is \<^verbatim>\<open>promisify(exec)\<close>: the promise resolves with the captured
  standard output exactly when the child exits with status 0; every other ending
  rejects it.
\<close>

definition execAsync :: "env \<Rightarrow> trace \<Rightarrow> string \<Rightarrow> exec_options \<Rightarrow> (exec_result + string) \<times> trace" where
  "execAsync e tr cmd opts =
     (case exec e tr cmd opts of
        Exited c out \<Rightarrow> (if c = 0 then Inr out else Inl (Exited c out))
      | r \<Rightarrow> Inl r,
      tr @ [Exec cmd opts])"

text \<open>
  \<^verbatim>\<open>testOllamaCLI\<close>: \<^verbatim>\<open>ollama --version\<close> with a timeout of 5000 ms; true when the
  promise resolves, false when it is rejected.
\<close>

definition version_options :: exec_options where
  "version_options = \<lparr>timeout = 5000, maxBuffer = None, shell = None\<rparr>"

definition testOllamaCLI :: "env \<Rightarrow> trace \<Rightarrow> bool \<times> trace" where
  "testOllamaCLI e tr =
     (case execAsync e tr ''ollama --version'' version_options of
        (Inr out, tr') \<Rightarrow> (True, tr')
      | (Inl r, tr') \<Rightarrow> (False, tr'))"

subsection \<open>JavaScript string operations\<close>

text \<open>
  The characters that \<^verbatim>\<open>String.prototype.trim\<close> strips and \<^verbatim>\<open>\s\<close> matches, among
  the code units below 256: tab, line feed, vertical tab, form feed, carriage return,
  space and no-break space.
\<close>

definition is_space :: "char \<Rightarrow> bool" where
  "is_space c = (c = CHR 0x09 \<or> c = CHR 0x0A \<or> c = CHR 0x0B \<or> c = CHR 0x0C \<or>
                 c = CHR 0x0D \<or> c = CHR 0x20 \<or> c = CHR 0xA0)"

definition trim :: "string \<Rightarrow> string" where
  "trim s = rev (dropWhile is_space (rev (dropWhile is_space s)))"

text \<open>\<^verbatim>\<open>s.split(c)\<close> for a one-character separator; the empty string gives \<^verbatim>\<open>[""]\<close>.\<close>

fun split_char :: "char \<Rightarrow> string \<Rightarrow> string list" where
  "split_char c [] = [[]]"
| "split_char c (x # xs) =
     (if x = c then [] # split_char c xs
      else (case split_char c xs of w # ws \<Rightarrow> (x # w) # ws | [] \<Rightarrow> [[x]]))"

text \<open>
  \<^verbatim>\<open>s.split(/\s+/)\<close>: every maximal run of white space is one separator, so white
  space at the start of the string gives an empty first part and white space at its
  end an empty last part.
\<close>

function split_ws :: "string \<Rightarrow> string list" where
  "split_ws [] = [[]]"
| "split_ws (x # xs) =
     (if is_space x then [] # split_ws (dropWhile is_space xs)
      else (case split_ws xs of w # ws \<Rightarrow> (x # w) # ws | [] \<Rightarrow> [[x]]))"
  by pat_completeness auto
termination
  by (relation "measure length") (auto simp: length_dropWhile_le less_Suc_eq_le)

text \<open>
  \<^verbatim>\<open>s.replace(/c/g, r)\<close> for a one-character pattern \<open>c\<close> and a replacement \<open>r\<close>
  without replacement patterns (in \<^verbatim>\<open>'\\$'\<close> the \<^verbatim>\<open>$\<close> is the last character, so it
  stands for itself).
\<close>

definition replace_all :: "char \<Rightarrow> string \<Rightarrow> string \<Rightarrow> string" where
  "replace_all c r s = concat (map (\<lambda>x. if x = c then r else [x]) s)"

subsection \<open>Listing models\<close>

record model_descriptor =
  name :: string
  modified_at :: string
  size_str :: string
  digest :: string

text \<open>\<^verbatim>\<open>parts[i] || ''\<close>: a missing part and an empty part both give the empty string.\<close>

definition part_or_empty :: "string list \<Rightarrow> nat \<Rightarrow> string" where
  "part_or_empty parts i = (if i < length parts then parts ! i else [])"

text \<open>
  One row of the listing. \<^verbatim>\<open>parts[0]\<close> is always there: \<open>split_ws\<close> never returns
  the empty list.
\<close>

definition parse_row :: "string \<Rightarrow> model_descriptor" where
  "parse_row line =
     (let parts = split_ws line in
      \<lparr> name = hd parts,
        modified_at = part_or_empty parts 1,
        size_str = part_or_empty parts 2,
        digest = part_or_empty parts 3 \<rparr>)"

definition parse_models :: "string \<Rightarrow> model_descriptor list" where
  "parse_models out =
     map parse_row (filter (\<lambda>line. trim line \<noteq> []) (drop 1 (split_char (CHR 0x0A) (trim out))))"

datatype cause = ExecFailure exec_result | TypeErrorUndefined

datatype error =
    CliListError cause
  | CliChatError cause
  | CliGenerateError cause
  | SdkFailure string
  | TypeErrorNull

definition list_options :: exec_options where
  "list_options = \<lparr>timeout = 10000, maxBuffer = None, shell = None\<rparr>"

definition getModelsViaCLI :: "env \<Rightarrow> trace \<Rightarrow> (error + model_descriptor list) \<times> trace" where
  "getModelsViaCLI e tr =
     (case execAsync e tr ''ollama list'' list_options of
        (Inr out, tr') \<Rightarrow> (Inr (parse_models out), tr')
      | (Inl r, tr') \<Rightarrow> (Inl (CliListError (ExecFailure r)), tr'))"

subsection \<open>Chat and generate\<close>

definition escape_prompt :: "string \<Rightarrow> string" where
  "escape_prompt s =
     replace_all (CHR 0x24) [CHR 0x5C, CHR 0x24] (replace_all (CHR 0x22) [CHR 0x5C, CHR 0x22] s)"

definition run_command :: "string \<Rightarrow> string \<Rightarrow> string" where
  "run_command prompt model = ''echo '' @ [CHR 0x22] @ prompt @ [CHR 0x22] @ '' | ollama run '' @ model"

definition run_options :: exec_options where
  "run_options = \<lparr>timeout = 60000, maxBuffer = Some (1024 * 1024), shell = Some ''/bin/bash''\<rparr>"

text \<open>
  \<^verbatim>\<open>chatViaCLI\<close>: \<^verbatim>\<open>messages[messages.length - 1]\<close> is \<^verbatim>\<open>undefined\<close> for the empty
  list, and reading its \<^verbatim>\<open>content\<close> raises a TypeError, which the \<^verbatim>\<open>catch\<close> wraps
  like every other exception. The result is the trimmed standard output, the text of
  \<^verbatim>\<open>{message: {role: 'assistant', content}, done: true}\<close>.
\<close>

definition chatViaCLI :: "env \<Rightarrow> trace \<Rightarrow> string \<Rightarrow> message list \<Rightarrow> (error + string) \<times> trace" where
  "chatViaCLI e tr model messages =
     (if messages = [] then (Inl (CliChatError TypeErrorUndefined), tr)
      else
        (let lastMessage = last messages;
             prompt = escape_prompt (content lastMessage)
         in case execAsync e tr (run_command prompt model) run_options of
              (Inr out, tr') \<Rightarrow> (Inr (trim out), tr')
            | (Inl r, tr') \<Rightarrow> (Inl (CliChatError (ExecFailure r)), tr')))"

definition generateViaCLI :: "env \<Rightarrow> trace \<Rightarrow> string \<Rightarrow> string \<Rightarrow> (error + string) \<times> trace" where
  "generateViaCLI e tr model prompt =
     (let cleanPrompt = escape_prompt prompt
      in case execAsync e tr (run_command cleanPrompt model) run_options of
           (Inr out, tr') \<Rightarrow> (Inr (trim out), tr')
         | (Inl r, tr') \<Rightarrow> (Inl (CliGenerateError (ExecFailure r)), tr'))"

section \<open>The backend adapter\<close>

text \<open>
  The three variables that \<^verbatim>\<open>init\<close> declares and the routes capture: the SDK client
  (\<open>None\<close> is \<^verbatim>\<open>null\<close>; a client is known by the host it is bound to), the flag
  of the command-line mode, and the host that the status route reports.
\<close>

record adapter =
  ollama :: "url option"
  useCLI :: bool
  activeOllamaHost :: url

datatype mode = NetworkAPI | CliFallback | Unavailable

text \<open>The reading \<^verbatim>\<open>ollama ? 'HTTP API' : (useCLI ? 'CLI' : 'none')\<close> of the routes.\<close>

definition mode_of :: "adapter \<Rightarrow> mode" where
  "mode_of a = (if ollama a \<noteq> None then NetworkAPI else if useCLI a then CliFallback else Unavailable)"

text \<open>
  The part of \<^verbatim>\<open>config\<close> that reaches the adapter; \<open>None\<close> is a missing
  \<^verbatim>\<open>ollamaHost\<close>, whose default is \<^verbatim>\<open>process.env.OLLAMA_HOST || "http://localhost:11434"\<close>.
\<close>

record config =
  ollamaHost :: "string option"

definition default_ollamaHost :: "env \<Rightarrow> config \<Rightarrow> url" where
  "default_ollamaHost e cfg =
     (case ollamaHost cfg of
        Some h \<Rightarrow> h
      | None \<Rightarrow> (case OLLAMA_HOST e of
                  Some h \<Rightarrow> (if h = [] then ''http://localhost:11434'' else h)
                | None \<Rightarrow> ''http://localhost:11434''))"

text \<open>
  The selection of the transport in \<^verbatim>\<open>init\<close>: probe the hosts; when one answers,
  build the SDK client and list its models, and drop the client when that throws;
  without a client, test the command line and list the models through it. The
  logging that follows the listing in the same \<^verbatim>\<open>try\<close> reads \<^verbatim>\<open>models.models\<close>, which
  throws when the listing has resolved to \<^verbatim>\<open>null\<close>, so the client is dropped then
  too.
\<close>

definition connect_sdk :: "env \<Rightarrow> trace \<Rightarrow> url option \<Rightarrow> url option \<times> trace" where
  "connect_sdk e tr workingHost =
     (case workingHost of
        None \<Rightarrow> (None, tr)
      | Some h \<Rightarrow>
          (case sdk_call e tr h SdkList of
             Inr models \<Rightarrow> (if models = json_null then None else Some h, tr @ [Sdk h SdkList])
           | Inl msg \<Rightarrow> (None, tr @ [Sdk h SdkList])))"

definition try_cli :: "env \<Rightarrow> trace \<Rightarrow> bool \<times> trace" where
  "try_cli e tr =
     (case testOllamaCLI e tr of
        (True, tr') \<Rightarrow>
          (case getModelsViaCLI e tr' of
             (Inr testModels, tr'') \<Rightarrow> (True, tr'')
           | (Inl err, tr'') \<Rightarrow> (False, tr''))
      | (False, tr') \<Rightarrow> (False, tr'))"

definition select_backend :: "env \<Rightarrow> config \<Rightarrow> trace \<Rightarrow> adapter \<times> trace" where
  "select_backend e cfg tr =
     (case findWorkingOllamaHost e tr of
        (workingHost, tr1) \<Rightarrow>
          (case connect_sdk e tr1 workingHost of
             (client, tr2) \<Rightarrow>
               (case (if client = None then try_cli e tr2 else (False, tr2)) of
                  (cli, tr3) \<Rightarrow>
                    (\<lparr> ollama = client,
                       useCLI = cli,
                       activeOllamaHost =
                         (case workingHost of Some h \<Rightarrow> h | None \<Rightarrow> default_ollamaHost e cfg) \<rparr>,
                     tr3))))"

text \<open>
  The exported object: the flag \<^verbatim>\<open>initiated\<close> and, once \<^verbatim>\<open>init\<close> has registered
  the routes, the variables they have captured. \<^verbatim>\<open>init\<close> returns \<^verbatim>\<open>{ app, db }\<close>
  when it does the work and \<^verbatim>\<open>undefined\<close> when the flag is already set. What
  follows the registration of the routes (the choice of a port, the Gun relay, the
  banner) touches none of the three variables and is left out.
\<close>

record relay =
  initiated :: bool
  routes :: "adapter option"

datatype init_result = Undefined | AppDb adapter

definition init :: "env \<Rightarrow> config \<Rightarrow> relay \<Rightarrow> trace \<Rightarrow> init_result \<times> relay \<times> trace" where
  "init e cfg r tr =
     (if initiated r then (Undefined, r, tr)
      else (case select_backend e cfg tr of
              (a, tr') \<Rightarrow> (AppDb a, r\<lparr>initiated := True, routes := Some a\<rparr>, tr')))"

definition fresh :: relay where
  "fresh = \<lparr>initiated = False, routes = None\<rparr>"

subsection \<open>Requests and responses\<close>

datatype manage_op = Create | Delete | Copy | Show | Pull | Push | Embeddings

datatype request =
    GetModels
  | PostChat string "message list" bool json
  | PostGenerate string string bool json
  | PostCreate string string bool
  | DeleteModel string
  | PostCopy string string
  | GetModel string
  | PostPull string bool
  | PostPush string bool
  | PostEmbeddings string string
  | GetStatus

record status_report =
  http_available :: bool
  http_host :: "url option"
  cli_available :: bool
  cli_status :: string
  overall_status :: string

text \<open>
  The JSON bodies the routes send, one constructor for each shape: the 503 body of
  \<^verbatim>\<open>checkOllamaConnection\<close>, the 400 body of chat and generate for a streaming
  request in command-line mode, the 400 body of the routes that need the SDK (with
  the route, which decides the hint), the 500 body with the message of the caught
  error and the mode, and the bodies of the successful answers; \<open>NoBody\<close> is
  \<^verbatim>\<open>res.json(undefined)\<close>.
\<close>

datatype body =
    ServiceUnavailable
  | StreamingNotSupported
  | HttpApiOnly manage_op
  | Failed error mode
  | ModelList "model_descriptor list"
  | Payload json
  | ChatReply string
  | GenerateReply string
  | Deleted string
  | Copied string string
  | Status status_report
  | NoBody

text \<open>
  A response: a JSON body with its status, a finished event stream with the chunks
  written, an event stream whose source threw after the chunks written, or nothing
  at all (the route returned without answering).
\<close>

datatype response =
    Json nat body
  | EventStream "json list"
  | BrokenStream "json list" string
  | NoResponse

subsection \<open>The routes\<close>

text \<open>The middleware \<^verbatim>\<open>checkOllamaConnection\<close>: \<open>True\<close> when it calls \<^verbatim>\<open>next()\<close>.\<close>

definition checkOllamaConnection :: "adapter \<Rightarrow> bool" where
  "checkOllamaConnection a = (\<not> (ollama a = None \<and> \<not> useCLI a))"

text \<open>
  A call of the SDK from a route: a streaming call relays the chunks, any other call
  sends the answer; an exception thrown by the call gives the 500 body.
\<close>

definition via_sdk :: "env \<Rightarrow> trace \<Rightarrow> url \<Rightarrow> sdk_request \<Rightarrow> bool \<Rightarrow> mode \<Rightarrow> response \<times> trace" where
  "via_sdk e tr h rq stream m =
     (if stream then
        (case sdk_stream e tr h rq of
           Inl msg \<Rightarrow> Json 500 (Failed (SdkFailure msg) m)
         | Inr (chunks, None) \<Rightarrow> EventStream chunks
         | Inr (chunks, Some msg) \<Rightarrow> BrokenStream chunks msg)
      else
        (case sdk_call e tr h rq of
           Inl msg \<Rightarrow> Json 500 (Failed (SdkFailure msg) m)
         | Inr j \<Rightarrow> Json 200 (Payload j)),
      tr @ [Sdk h rq])"

definition sdk_then :: "env \<Rightarrow> trace \<Rightarrow> url \<Rightarrow> sdk_request \<Rightarrow> body \<Rightarrow> response \<times> trace" where
  "sdk_then e tr h rq done =
     (case sdk_call e tr h rq of
        Inl msg \<Rightarrow> Json 500 (Failed (SdkFailure msg) NetworkAPI)
      | Inr j \<Rightarrow> Json 200 done,
      tr @ [Sdk h rq])"

text \<open>
  The listing route. With the SDK it sends \<^verbatim>\<open>response.models\<close> (the payload stands
  for that field of the answer); reading the field of an answer that is \<^verbatim>\<open>null\<close>
  raises a TypeError, which the \<^verbatim>\<open>catch\<close> reports with status 500.
\<close>

definition get_models :: "env \<Rightarrow> adapter \<Rightarrow> trace \<Rightarrow> response \<times> trace" where
  "get_models e a tr =
     (if \<not> checkOllamaConnection a then (Json 503 ServiceUnavailable, tr)
      else (case ollama a of
              Some h \<Rightarrow>
                (case sdk_call e tr h SdkList of
                   Inl msg \<Rightarrow> Json 500 (Failed (SdkFailure msg) (mode_of a))
                 | Inr response \<Rightarrow>
                     (if response = json_null then Json 500 (Failed TypeErrorNull (mode_of a))
                      else Json 200 (Payload response)),
                 tr @ [Sdk h SdkList])
            | None \<Rightarrow>
                (if useCLI a then
                   (case getModelsViaCLI e tr of
                      (Inr models, tr') \<Rightarrow> (Json 200 (ModelList models), tr')
                    | (Inl err, tr') \<Rightarrow> (Json 500 (Failed err (mode_of a)), tr'))
                 else (Json 200 NoBody, tr))))"

definition post_chat :: "env \<Rightarrow> adapter \<Rightarrow> trace \<Rightarrow> string \<Rightarrow> message list \<Rightarrow> bool \<Rightarrow> json \<Rightarrow> response \<times> trace" where
  "post_chat e a tr model messages stream options =
     (if \<not> checkOllamaConnection a then (Json 503 ServiceUnavailable, tr)
      else (case ollama a of
              Some h \<Rightarrow> via_sdk e tr h (SdkChat model messages stream options) stream (mode_of a)
            | None \<Rightarrow>
                (if useCLI a then
                   (if stream then (Json 400 StreamingNotSupported, tr)
                    else (case chatViaCLI e tr model messages of
                            (Inr reply, tr') \<Rightarrow> (Json 200 (ChatReply reply), tr')
                          | (Inl err, tr') \<Rightarrow> (Json 500 (Failed err (mode_of a)), tr')))
                 else (NoResponse, tr))))"

definition post_generate :: "env \<Rightarrow> adapter \<Rightarrow> trace \<Rightarrow> string \<Rightarrow> string \<Rightarrow> bool \<Rightarrow> json \<Rightarrow> response \<times> trace" where
  "post_generate e a tr model prompt stream options =
     (if \<not> checkOllamaConnection a then (Json 503 ServiceUnavailable, tr)
      else (case ollama a of
              Some h \<Rightarrow> via_sdk e tr h (SdkGenerate model prompt stream options) stream (mode_of a)
            | None \<Rightarrow>
                (if useCLI a then
                   (if stream then (Json 400 StreamingNotSupported, tr)
                    else (case generateViaCLI e tr model prompt of
                            (Inr reply, tr') \<Rightarrow> (Json 200 (GenerateReply reply), tr')
                          | (Inl err, tr') \<Rightarrow> (Json 500 (Failed err (mode_of a)), tr')))
                 else (NoResponse, tr))))"

text \<open>
  The routes that exist for the SDK only: after the middleware, \<^verbatim>\<open>if (!ollama)\<close>
  answers 400 before anything else is done.
\<close>

definition http_only :: "adapter \<Rightarrow> trace \<Rightarrow> manage_op \<Rightarrow> (url \<Rightarrow> response \<times> trace) \<Rightarrow> response \<times> trace" where
  "http_only a tr op' run =
     (if \<not> checkOllamaConnection a then (Json 503 ServiceUnavailable, tr)
      else (case ollama a of
              None \<Rightarrow> (Json 400 (HttpApiOnly op'), tr)
            | Some h \<Rightarrow> run h))"

definition get_status :: "adapter \<Rightarrow> response" where
  "get_status a =
     Json 200 (Status
       \<lparr> http_available = (ollama a \<noteq> None),
         http_host = (if ollama a \<noteq> None then Some (activeOllamaHost a) else None),
         cli_available = useCLI a,
         cli_status = (if useCLI a then ''active'' else ''unavailable''),
         overall_status =
           (if ollama a \<noteq> None then ''HTTP API'' else if useCLI a then ''CLI Mode'' else ''Unavailable'') \<rparr>)"

text \<open>
  The route table. A route returns the response, the three variables as it leaves
  them, and the trace.
\<close>

fun handle :: "env \<Rightarrow> adapter \<Rightarrow> trace \<Rightarrow> request \<Rightarrow> response \<times> adapter \<times> trace" where
  "handle e a tr GetModels = (case get_models e a tr of (rs, tr') \<Rightarrow> (rs, a, tr'))"
| "handle e a tr (PostChat model messages stream options) =
     (case post_chat e a tr model messages stream options of (rs, tr') \<Rightarrow> (rs, a, tr'))"
| "handle e a tr (PostGenerate model prompt stream options) =
     (case post_generate e a tr model prompt stream options of (rs, tr') \<Rightarrow> (rs, a, tr'))"
| "handle e a tr (PostCreate nm modelfile stream) =
     (case http_only a tr Create (\<lambda>h. via_sdk e tr h (SdkCreate nm modelfile stream) stream NetworkAPI)
      of (rs, tr') \<Rightarrow> (rs, a, tr'))"
| "handle e a tr (DeleteModel nm) =
     (case http_only a tr Delete (\<lambda>h. sdk_then e tr h (SdkDelete nm) (Deleted nm))
      of (rs, tr') \<Rightarrow> (rs, a, tr'))"
| "handle e a tr (PostCopy source destination) =
     (case http_only a tr Copy (\<lambda>h. sdk_then e tr h (SdkCopy source destination) (Copied source destination))
      of (rs, tr') \<Rightarrow> (rs, a, tr'))"
| "handle e a tr (GetModel nm) =
     (case http_only a tr Show (\<lambda>h. via_sdk e tr h (SdkShow nm) False NetworkAPI)
      of (rs, tr') \<Rightarrow> (rs, a, tr'))"
| "handle e a tr (PostPull nm stream) =
     (case http_only a tr Pull (\<lambda>h. via_sdk e tr h (SdkPull nm stream) stream NetworkAPI)
      of (rs, tr') \<Rightarrow> (rs, a, tr'))"
| "handle e a tr (PostPush nm stream) =
     (case http_only a tr Push (\<lambda>h. via_sdk e tr h (SdkPush nm stream) stream NetworkAPI)
      of (rs, tr') \<Rightarrow> (rs, a, tr'))"
| "handle e a tr (PostEmbeddings model prompt) =
     (case http_only a tr Embeddings (\<lambda>h. via_sdk e tr h (SdkEmbeddings model prompt) False NetworkAPI)
      of (rs, tr') \<Rightarrow> (rs, a, tr'))"
| "handle e a tr GetStatus = (get_status a, a, tr)"

text \<open>
  What can happen to the process: a call of \<^verbatim>\<open>init\<close>, or a request to a route.
  Before \<^verbatim>\<open>init\<close> has registered the routes there is no server to take a request.
\<close>

datatype operation = Init config | Request request

datatype outcome = Returned init_result | Answered response | NotListening

definition step :: "env \<Rightarrow> relay \<times> trace \<Rightarrow> operation \<Rightarrow> outcome \<times> relay \<times> trace" where
  "step e st op' =
     (case st of (r, tr) \<Rightarrow>
        (case op' of
           Init cfg \<Rightarrow> (case init e cfg r tr of (res, r', tr') \<Rightarrow> (Returned res, r', tr'))
         | Request rq \<Rightarrow>
             (case routes r of
                None \<Rightarrow> (NotListening, r, tr)
              | Some a \<Rightarrow>
                  (case handle e a tr rq of
                     (rs, a', tr') \<Rightarrow> (Answered rs, r\<lparr>routes := Some a'\<rparr>, tr')))))"

fun run :: "env \<Rightarrow> relay \<times> trace \<Rightarrow> operation list \<Rightarrow> relay \<times> trace" where
  "run e st [] = st"
| "run e st (op' # ops) = run e (snd (step e st op')) ops"

subsection \<open>The error kinds of the specification\<close>

text \<open>
  The specification names the failures of the adapter; the routes report them as
  follows. \<open>BackendUnavailable\<close> is the 503 body of the middleware,
  \<open>UnsupportedByMode\<close> the 400 body of the routes that need the SDK,
  \<open>StreamingUnsupported\<close> the 400 body for a streaming request in command-line mode.
  A 500 body carries the caught error: a child process killed at its timeout is
  \<open>CliTimeout\<close>, one whose output exceeded the buffer \<open>CliOutputTooLarge\<close>, and any
  other failure of the child process or of the SDK is \<open>UpstreamError\<close>. A TypeError
  raised by the server's own code is none of them.
\<close>

datatype error_kind =
    BackendUnavailable
  | UnsupportedByMode
  | StreamingUnsupported
  | CliTimeout
  | CliOutputTooLarge
  | UpstreamError

fun kind_of_cause :: "cause \<Rightarrow> error_kind option" where
  "kind_of_cause (ExecFailure TimedOut) = Some CliTimeout"
| "kind_of_cause (ExecFailure BufferExceeded) = Some CliOutputTooLarge"
| "kind_of_cause (ExecFailure r) = Some UpstreamError"
| "kind_of_cause TypeErrorUndefined = None"

fun kind_of_error :: "error \<Rightarrow> error_kind option" where
  "kind_of_error (CliListError c) = kind_of_cause c"
| "kind_of_error (CliChatError c) = kind_of_cause c"
| "kind_of_error (CliGenerateError c) = kind_of_cause c"
| "kind_of_error (SdkFailure msg) = Some UpstreamError"
| "kind_of_error TypeErrorNull = None"

fun error_kind_of :: "response \<Rightarrow> error_kind option" where
  "error_kind_of (Json st ServiceUnavailable) = Some BackendUnavailable"
| "error_kind_of (Json st (HttpApiOnly op')) = Some UnsupportedByMode"
| "error_kind_of (Json st StreamingNotSupported) = Some StreamingUnsupported"
| "error_kind_of (Json st (Failed err m)) = kind_of_error err"
| "error_kind_of rs = None"


section \<open>Concrete environments\<close>

text \<open>
  An environment in which nothing answers: no variable is set, there is no network
  interface, every request is rejected and no command can be started. The others
  differ from it in one oracle.
\<close>

definition silent_env :: env where
  "silent_env =
     \<lparr> OLLAMA_HOST = None,
       networkInterfaces = [],
       fetch = (\<lambda>tr u. Rejected),
       sdk_call = (\<lambda>tr h rq. Inl ''fetch failed''),
       sdk_stream = (\<lambda>tr h rq. Inl ''fetch failed''),
       exec = (\<lambda>tr cmd opts. SpawnFailed) \<rparr>"

text \<open>Only the host \<open>h\<close> answers the version request.\<close>

definition answering_env :: "url \<Rightarrow> env" where
  "answering_env h =
     silent_env\<lparr>fetch := (\<lambda>tr u. if u = h @ ''/api/version'' then Response True JsonValue else Rejected)\<rparr>"

text \<open>
  A machine with a loopback and an Ethernet interface, whose operator has set
  \<^verbatim>\<open>OLLAMA_HOST=http://localhost:11434\<close>.
\<close>

definition lan_env :: env where
  "lan_env =
     silent_env
       \<lparr> OLLAMA_HOST := Some ''http://localhost:11434'',
         networkInterfaces :=
           [ (''lo'', [\<lparr>family = ''IPv4'', internal = True, address = ''127.0.0.1''\<rparr>]),
             (''eth0'', [\<lparr>family = ''IPv6'', internal = False, address = ''fe80::1''\<rparr>,
                         \<lparr>family = ''IPv4'', internal = False, address = ''192.168.1.23''\<rparr>]) ] \<rparr>"

text \<open>Every command exits with status 0 and prints nothing.\<close>

definition quiet_cli_env :: env where
  "quiet_cli_env = silent_env\<lparr>exec := (\<lambda>tr cmd opts. Exited 0 [])\<rparr>"

text \<open>The listing of the specification's example, as \<^verbatim>\<open>ollama list\<close> prints it.\<close>

definition example_listing :: string where
  "example_listing =
     ''NAME'' @ [CHR 0x09] @ ''ID'' @ [CHR 0x09] @ ''SIZE'' @ [CHR 0x09] @ ''MODIFIED'' @ [CHR 0x0A] @
     ''llama3'' @ [CHR 0x09] @ ''abc123'' @ [CHR 0x09] @ ''4.1GB'' @ [CHR 0x09] @ ''2 days ago'' @ [CHR 0x0A]"

text \<open>
  The command-line tool works: it prints its version, the example listing, and one
  line as the answer to every prompt. No endpoint answers.
\<close>

definition cli_env :: env where
  "cli_env =
     silent_env\<lparr>exec := (\<lambda>tr cmd opts.
       if cmd = ''ollama --version'' then Exited 0 (''ollama version is 0.1.32'' @ [CHR 0x0A])
       else if cmd = ''ollama list'' then Exited 0 example_listing
       else Exited 0 (''Hello!'' @ [CHR 0x0A]))\<rparr>"

text \<open>The variables of the routes in command-line mode and when nothing is available.\<close>

definition cli_adapter :: adapter where
  "cli_adapter = \<lparr>ollama = None, useCLI = True, activeOllamaHost = ''http://localhost:11434''\<rparr>"

definition unavailable_adapter :: adapter where
  "unavailable_adapter = \<lparr>ollama = None, useCLI = False, activeOllamaHost = ''http://localhost:11434''\<rparr>"

text \<open>
  The process after its first call of \<^verbatim>\<open>init\<close>, without a configuration, in the
  environment in which nothing answers.
\<close>

definition default_config :: config where
  "default_config = \<lparr>ollamaHost = None\<rparr>"

definition started :: "relay \<times> trace" where
  "started = snd (init silent_env default_config fresh [])"


text \<open>A prompt with quotes, a dollar sign, backticks and a backslash.\<close>

definition tricky_prompt :: string where
  "tricky_prompt = ''say '' @ [CHR 0x22] @ ''hi'' @ [CHR 0x22] @ '' $HOME '' @ [CHR 0x60] @ ''id'' @ [CHR 0x60] @ '' '' @ [CHR 0x5C] @ ''n''"

section \<open>Notions used in the statements\<close>





text \<open>
  The escaping of a prompt as the specification words it, character by character:
  a double quote and a dollar sign get a backslash in front, every other character
  stays as it is.
\<close>

definition escape_char :: "char \<Rightarrow> string" where
  "escape_char c =
     (if c = CHR 0x22 then [CHR 0x5C, CHR 0x22]
      else if c = CHR 0x24 then [CHR 0x5C, CHR 0x24]
      else [c])"

text \<open>The operation of a request to one of the routes that exist for the SDK only.\<close>

fun manage_op_of :: "request \<Rightarrow> manage_op option" where
  "manage_op_of (PostCreate nm modelfile stream) = Some Create"
| "manage_op_of (DeleteModel nm) = Some Delete"
| "manage_op_of (PostCopy source destination) = Some Copy"
| "manage_op_of (GetModel nm) = Some Show"
| "manage_op_of (PostPull nm stream) = Some Pull"
| "manage_op_of (PostPush nm stream) = Some Push"
| "manage_op_of (PostEmbeddings model prompt) = Some Embeddings"
| "manage_op_of rq = None"

section \<open>Properties of the endpoint prober\<close>

lemma testOllamaConnection_trace:
  "snd (testOllamaConnection e tr host) = tr @ checks [host]"
  by (simp add: testOllamaConnection_def checks_def Let_def)

lemma checks_Cons: "checks (h # hs) = checks [h] @ checks hs"
  by (simp add: checks_def)

lemma probe_all_fail:
  "(\<And>i. i < length hosts \<Longrightarrow> \<not> answers e tr hosts i) \<Longrightarrow>
   probe e tr hosts = (None, tr @ checks hosts)"
proof (induction hosts arbitrary: tr)
  case Nil
  show ?case by (simp add: checks_def)
next
  case (Cons h hs)
  obtain b tr' where t: "testOllamaConnection e tr h = (b, tr')"
    by (cases "testOllamaConnection e tr h")
  have tr': "tr' = tr @ checks [h]"
    using testOllamaConnection_trace [of e tr h] t by simp
  have "\<not> answers e tr (h # hs) 0"
    using Cons.prems [of 0] by simp
  then have b: "\<not> b"
    using t by (simp add: answers_def checks_def)
  have "\<not> answers e tr' hs i" if "i < length hs" for i
    using Cons.prems [of "Suc i"] that
    by (simp add: answers_def tr' checks_Cons [of h "take i hs"])
  then have "probe e tr' hs = (None, tr' @ checks hs)"
    by (rule Cons.IH)
  then show ?case
    using t b by (simp add: tr' checks_Cons [of h hs])
qed

lemma probe_first_success:
  "k < length hosts \<Longrightarrow> answers e tr hosts k \<Longrightarrow>
   (\<And>i. i < k \<Longrightarrow> \<not> answers e tr hosts i) \<Longrightarrow>
   probe e tr hosts = (Some (hosts ! k), tr @ checks (take (Suc k) hosts))"
proof (induction hosts arbitrary: tr k)
  case Nil
  then show ?case by simp
next
  case (Cons h hs)
  obtain b tr' where t: "testOllamaConnection e tr h = (b, tr')"
    by (cases "testOllamaConnection e tr h")
  have tr': "tr' = tr @ checks [h]"
    using testOllamaConnection_trace [of e tr h] t by simp
  show ?case
  proof (cases k)
    case 0
    then have "b"
      using Cons.prems(2) t by (simp add: answers_def checks_def)
    then show ?thesis
      using t 0 by (simp add: tr')
  next
    case (Suc j)
    have "\<not> answers e tr (h # hs) 0"
      using Cons.prems(3) [of 0] Suc by simp
    then have b: "\<not> b"
      using t by (simp add: answers_def checks_def)
    have j: "j < length hs"
      using Cons.prems(1) Suc by simp
    have aj: "answers e tr' hs j"
      using Cons.prems(2) Suc
      by (simp add: answers_def tr' checks_Cons [of h "take j hs"])
    have "\<not> answers e tr' hs i" if "i < j" for i
      using Cons.prems(3) [of "Suc i"] that Suc
      by (simp add: answers_def tr' checks_Cons [of h "take i hs"])
    then have "probe e tr' hs = (Some (hs ! j), tr' @ checks (take (Suc j) hs))"
      using Cons.IH [OF j aj] by blast
    then show ?thesis
      using t b Suc by (simp add: tr' checks_Cons [of h "take (Suc j) hs"])
  qed
qed

text \<open>
  C1. For every candidate list in which the \<open>k\<close>-th host is the first whose liveness
  check succeeds, the loop of \<^verbatim>\<open>findWorkingOllamaHost\<close> returns that host, and the
  checks it has made are those of the hosts up to index \<open>k\<close>, in list order and
  nothing else; when no check succeeds (the empty list included) it returns \<^verbatim>\<open>null\<close>
  after one check of every host, in list order. The answer of a host may depend on
  the checks made before it.
\<close>

theorem probe_first_responsive:
  "(k < length hosts \<and> answers e tr hosts k \<and> (\<forall>i<k. \<not> answers e tr hosts i) \<longrightarrow>
      probe e tr hosts = (Some (hosts ! k), tr @ checks (take (Suc k) hosts))) \<and>
   ((\<forall>i<length hosts. \<not> answers e tr hosts i) \<longrightarrow>
      probe e tr hosts = (None, tr @ checks hosts))"
  using probe_first_success [of k hosts e tr] probe_all_fail [of hosts e tr] by blast

theorem probe_first_responsive_witness:
  "probe (answering_env ''http://b'') [] [''http://a'', ''http://b'', ''http://c'']
     = (Some ''http://b'', [Fetch ''http://a/api/version'', Fetch ''http://b/api/version'']) \<and>
   probe silent_env [] [''http://a'', ''http://b'', ''http://c'']
     = (None, [Fetch ''http://a/api/version'', Fetch ''http://b/api/version'',
               Fetch ''http://c/api/version''])"
  using probe_first_responsive [of 1 "[''http://a'', ''http://b'', ''http://c'']" "answering_env ''http://b''" "[]"]
        probe_first_responsive [of 0 "[''http://a'', ''http://b'', ''http://c'']" silent_env "[]"]
  by (simp add: answers_def testOllamaConnection_def checks_def answering_env_def silent_env_def
        All_less_Suc numeral_3_eq_3)

section \<open>The candidate list\<close>

text \<open>
  C3, as the specification states it, fails: the list is not deduplicated, and the
  known remote hosts stand before the container-gateway addresses, not last. With
  \<^verbatim>\<open>OLLAMA_HOST=http://localhost:11434\<close> the list is the following.
\<close>

theorem possibleHosts_not_deduplicated:
  "\<not> distinct (possibleHosts lan_env) \<and>
   possibleHosts lan_env =
     [ ''http://localhost:11434'',
       ''http://localhost:11434'',
       ''http://127.0.0.1:11434'',
       ''http://192.168.1.23:11434'',
       ''http://0.0.0.0:11434'',
       ''https://lzcollama.ponzs.heiyu.space'',
       ''http://baota.ponzs.heiyu.space:11434'',
       ''https://a.talkflow.team'',
       ''http://host.docker.internal:11434'',
       ''http://172.17.0.1:11434'',
       ''http://172.18.0.1:11434'',
       ''http://192.168.1.1:11434'',
       ''http://10.0.0.1:11434'' ]"
  by (simp add: possibleHosts_def lan_env_def silent_env_def getLocalIPAddress_def)

text \<open>
  C3, amended. The candidate list has its undefined and empty entries removed and is
  not deduplicated. Its order is: the configured endpoint (when set and not empty),
  the loopback addresses \<^verbatim>\<open>localhost\<close> and \<^verbatim>\<open>127.0.0.1\<close>, the discovered LAN
  address, \<^verbatim>\<open>0.0.0.0\<close>, the three known remote hosts, the container-gateway
  addresses, and last the two private-network gateway addresses.
\<close>

theorem possibleHosts_order:
  "possibleHosts e =
     explicit_host e @
     [ ''http://localhost:11434'',
       ''http://127.0.0.1:11434'',
       ''http://'' @ getLocalIPAddress e @ '':11434'',
       ''http://0.0.0.0:11434'',
       ''https://lzcollama.ponzs.heiyu.space'',
       ''http://baota.ponzs.heiyu.space:11434'',
       ''https://a.talkflow.team'',
       ''http://host.docker.internal:11434'',
       ''http://172.17.0.1:11434'',
       ''http://172.18.0.1:11434'',
       ''http://192.168.1.1:11434'',
       ''http://10.0.0.1:11434'' ] \<and>
   [] \<notin> set (possibleHosts e)"
  by (simp add: possibleHosts_def explicit_host_def split: option.split)

section \<open>The command-line probe\<close>

text \<open>
  C4, as the specification states it, fails: a version command that exits with
  status 0 and prints nothing makes \<^verbatim>\<open>testOllamaCLI\<close> return true.
\<close>

theorem testOllamaCLI_empty_stdout:
  "exec quiet_cli_env [] ''ollama --version'' version_options = Exited 0 [] \<and>
   testOllamaCLI quiet_cli_env [] = (True, [Exec ''ollama --version'' version_options])"
  by (simp add: testOllamaCLI_def execAsync_def quiet_cli_env_def silent_env_def version_options_def)

text \<open>
  C4, amended. \<^verbatim>\<open>testOllamaCLI\<close> runs the version command once, with the timeout
  of 5000 ms, and returns true if and only if the command exits with status 0,
  whatever it has printed; in every other case (another exit status, the timeout,
  an overflowing buffer, a command that cannot be started) it returns false.
\<close>

theorem testOllamaCLI_exit_status:
  "fst (testOllamaCLI e tr) = (\<exists>out. exec e tr ''ollama --version'' version_options = Exited 0 out) \<and>
   snd (testOllamaCLI e tr) = tr @ [Exec ''ollama --version'' version_options] \<and>
   timeout version_options = 5000"
  by (simp add: testOllamaCLI_def execAsync_def version_options_def split: exec_result.split)

section \<open>Initialisation happens once\<close>

lemma init_initiated: "initiated (fst (snd (init e cfg r tr)))"
  by (simp add: init_def split: prod.split)

lemma step_initiated: "initiated (fst st) \<Longrightarrow> initiated (fst (snd (step e st op')))"
  by (cases st) (simp add: step_def init_def split: operation.split option.split prod.split)

lemma run_initiated: "initiated (fst st) \<Longrightarrow> initiated (fst (run e st ops))"
  by (induction ops arbitrary: st) (simp_all add: step_initiated)

text \<open>
  C2, as the specification states it, fails: the first call of \<^verbatim>\<open>init\<close> returns
  \<^verbatim>\<open>{ app, db }\<close>, a second call returns \<^verbatim>\<open>undefined\<close>, which is neither the mode
  nor what the first call returned.
\<close>

theorem init_twice:
  "fst (init silent_env default_config fresh []) = AppDb unavailable_adapter \<and>
   fst (init silent_env default_config (fst started) (snd started)) = Undefined \<and>
   fst (init silent_env default_config (fst started) (snd started)) \<noteq>
     fst (init silent_env default_config fresh [])"
  by (simp add: init_def fresh_def started_def default_config_def unavailable_adapter_def
        select_backend_def findWorkingOllamaHost_def possibleHosts_def testOllamaConnection_def
        silent_env_def connect_sdk_def try_cli_def testOllamaCLI_def execAsync_def
        default_ollamaHost_def getLocalIPAddress_def)

text \<open>
  C2, amended. Once \<^verbatim>\<open>init\<close> has been called, every later call of \<^verbatim>\<open>init\<close>,
  whatever requests and calls of \<^verbatim>\<open>init\<close> lie in between and whatever its
  configuration, returns \<^verbatim>\<open>undefined\<close> and changes nothing: the flag, the variables
  the routes read (so the mode) and the trace stay as they are, so neither the
  endpoint prober nor the command-line probe runs again.
\<close>

theorem init_again_noop:
  "init e cfg' (fst (run e (snd (step e (r, tr) (Init cfg))) ops))
                (snd (run e (snd (step e (r, tr) (Init cfg))) ops)) =
   (Undefined, run e (snd (step e (r, tr) (Init cfg))) ops)"
proof -
  have "initiated (fst (snd (step e (r, tr) (Init cfg))))"
    using init_initiated [of e cfg r tr] by (auto simp: step_def split: prod.split)
  then have "initiated (fst (run e (snd (step e (r, tr) (Init cfg))) ops))"
    by (rule run_initiated)
  then show ?thesis
    by (simp add: init_def)
qed

section \<open>Parsing the model listing\<close>



























text \<open>
  White space at the start of a line is a separator like any other: the part before
  it is empty, and that empty part is the name.
\<close>

lemma parse_row_leading_space: "is_space x \<Longrightarrow> name (parse_row (x # l)) = []"
  by (simp add: parse_row_def Let_def)





section \<open>Modes and routes\<close>

lemma cli_mode: "mode_of a = CliFallback \<longleftrightarrow> ollama a = None \<and> useCLI a"
  by (simp add: mode_of_def)

lemma unavailable_mode: "mode_of a = Unavailable \<longleftrightarrow> ollama a = None \<and> \<not> useCLI a"
  by (simp add: mode_of_def)

lemma cli_adapter_selected:
  "fst (select_backend cli_env \<lparr>ollamaHost = None\<rparr> []) = cli_adapter"
  by (simp add: select_backend_def findWorkingOllamaHost_def possibleHosts_def
        testOllamaConnection_def silent_env_def connect_sdk_def try_cli_def testOllamaCLI_def
        execAsync_def default_ollamaHost_def getLocalIPAddress_def cli_adapter_def cli_env_def
        getModelsViaCLI_def)

lemma unavailable_adapter_selected:
  "fst (select_backend silent_env \<lparr>ollamaHost = None\<rparr> []) = unavailable_adapter"
  by (simp add: select_backend_def findWorkingOllamaHost_def possibleHosts_def
        testOllamaConnection_def silent_env_def connect_sdk_def try_cli_def testOllamaCLI_def
        execAsync_def default_ollamaHost_def getLocalIPAddress_def unavailable_adapter_def)

text \<open>
  C6. In command-line mode a chat or generate request with \<^verbatim>\<open>stream\<close> set is
  answered with status 400 and the body that says streaming is not supported (the
  error kind \<open>StreamingUnsupported\<close>); the trace is unchanged, so no child process
  has been started and no network request made.
\<close>

theorem streaming_rejected_in_cli_mode:
  "mode_of a = CliFallback \<Longrightarrow>
   handle e a tr (PostChat model messages True options) = (Json 400 StreamingNotSupported, a, tr) \<and>
   handle e a tr (PostGenerate model prompt True options) = (Json 400 StreamingNotSupported, a, tr) \<and>
   error_kind_of (Json 400 StreamingNotSupported) = Some StreamingUnsupported"
  by (simp add: cli_mode post_chat_def post_generate_def checkOllamaConnection_def)

theorem streaming_rejected_in_cli_mode_witness:
  "mode_of cli_adapter = CliFallback \<and>
   handle cli_env cli_adapter [] (PostChat ''llama3'' [\<lparr>role = ''user'', content = ''hi''\<rparr>] True ''{}'')
     = (Json 400 StreamingNotSupported, cli_adapter, []) \<and>
   handle cli_env cli_adapter [] (PostGenerate ''llama3'' ''hi'' True ''{}'')
     = (Json 400 StreamingNotSupported, cli_adapter, [])"
proof -
  have m: "mode_of cli_adapter = CliFallback"
    by (simp add: mode_of_def cli_adapter_def)
  show ?thesis
    using m streaming_rejected_in_cli_mode [OF m, of cli_env "[]" "''llama3''"
        "[\<lparr>role = ''user'', content = ''hi''\<rparr>]" "''{}''" "''hi''"]
    by simp
qed

text \<open>
  C7. In command-line mode every request to create, delete, copy, show, pull or push
  a model or to compute embeddings is answered with status 400 and the body that
  says the route needs the HTTP API (\<open>UnsupportedByMode\<close>), and the trace is
  unchanged. When nothing is available the same requests are answered with status
  503 by the middleware (\<open>BackendUnavailable\<close>), again with the trace unchanged.
  The two answers differ, in status and in kind.
\<close>

theorem manage_needs_sdk:
  "manage_op_of rq = Some op' \<Longrightarrow>
   (mode_of a = CliFallback \<longrightarrow>
      handle e a tr rq = (Json 400 (HttpApiOnly op'), a, tr) \<and>
      error_kind_of (Json 400 (HttpApiOnly op')) = Some UnsupportedByMode) \<and>
   (mode_of a = Unavailable \<longrightarrow>
      handle e a tr rq = (Json 503 ServiceUnavailable, a, tr) \<and>
      error_kind_of (Json 503 ServiceUnavailable) = Some BackendUnavailable) \<and>
   Json 400 (HttpApiOnly op') \<noteq> Json 503 ServiceUnavailable \<and>
   UnsupportedByMode \<noteq> BackendUnavailable"
  by (cases rq) (auto simp: cli_mode unavailable_mode http_only_def checkOllamaConnection_def)

theorem manage_needs_sdk_witness:
  "handle cli_env cli_adapter [] (DeleteModel ''llama3'') = (Json 400 (HttpApiOnly Delete), cli_adapter, []) \<and>
   handle silent_env unavailable_adapter [] (DeleteModel ''llama3'')
     = (Json 503 ServiceUnavailable, unavailable_adapter, [])"
proof -
  have c: "mode_of cli_adapter = CliFallback"
    by (simp add: mode_of_def cli_adapter_def)
  have u: "mode_of unavailable_adapter = Unavailable"
    by (simp add: mode_of_def unavailable_adapter_def)
  have d: "manage_op_of (DeleteModel ''llama3'') = Some Delete"
    by simp
  show ?thesis
    using manage_needs_sdk [OF d, of cli_adapter cli_env "[]"]
          manage_needs_sdk [OF d, of unavailable_adapter silent_env "[]"] c u
    by simp
qed

lemma handle_adapter: "handle e a tr rq = (rs, a', tr') \<Longrightarrow> a' = a"
  by (cases rq) (auto split: prod.splits)

lemma step_routes:
  "initiated r \<Longrightarrow> routes r = Some a \<Longrightarrow>
   initiated (fst (snd (step e (r, tr) op'))) \<and> routes (fst (snd (step e (r, tr) op'))) = Some a"
  by (auto simp: step_def init_def split: operation.split prod.split dest: handle_adapter)

lemma run_routes:
  "initiated (fst st) \<Longrightarrow> routes (fst st) = Some a \<Longrightarrow> routes (fst (run e st ops)) = Some a"
proof (induction ops arbitrary: st)
  case Nil
  then show ?case by simp
next
  case (Cons op' ops)
  obtain r tr where st: "st = (r, tr)" by (cases st)
  have "initiated (fst (snd (step e st op'))) \<and> routes (fst (snd (step e st op'))) = Some a"
    using Cons.prems step_routes [of r a e tr op'] st by simp
  then show ?case
    using Cons.IH [of "snd (step e st op')"] by simp
qed

lemma select_backend_exclusive:
  "\<not> (ollama (fst (select_backend e cfg tr)) \<noteq> None \<and> useCLI (fst (select_backend e cfg tr)))"
  by (simp add: select_backend_def split: prod.split)

text \<open>
  C8. The first call of \<^verbatim>\<open>init\<close> leaves the routes with variables in which the
  SDK client and the command-line flag are never both set, so exactly one of the
  three modes holds, each with its own combination of the two. Whatever operations
  follow (requests to any route, further calls of \<^verbatim>\<open>init\<close>), the routes keep
  these variables: the client, the flag and the active host stay as the first call
  of \<^verbatim>\<open>init\<close> has set them.
\<close>

theorem mode_fixed_after_init:
  "(case init e cfg fresh tr of
      (res, r1, tr1) \<Rightarrow>
        (\<exists>a. res = AppDb a \<and> routes r1 = Some a \<and>
           \<not> (ollama a \<noteq> None \<and> useCLI a) \<and>
           (mode_of a = NetworkAPI) = (ollama a \<noteq> None \<and> \<not> useCLI a) \<and>
           (mode_of a = CliFallback) = (ollama a = None \<and> useCLI a) \<and>
           (mode_of a = Unavailable) = (ollama a = None \<and> \<not> useCLI a) \<and>
           routes (fst (run e (r1, tr1) ops)) = Some a))"
proof -
  obtain a tr1 where s: "select_backend e cfg tr = (a, tr1)"
    by (cases "select_backend e cfg tr")
  have i: "init e cfg fresh tr = (AppDb a, \<lparr>initiated = True, routes = Some a\<rparr>, tr1)"
    by (simp add: init_def fresh_def s)
  have x: "\<not> (ollama a \<noteq> None \<and> useCLI a)"
    using select_backend_exclusive [of e cfg tr] s by simp
  have "routes (fst (run e (\<lparr>initiated = True, routes = Some a\<rparr>, tr1) ops)) = Some a"
    by (rule run_routes) simp_all
  then show ?thesis
    using x by (auto simp: i mode_of_def)
qed

section \<open>The prompt on the command line\<close>

lemma replace_all_Nil: "replace_all c r [] = []"
  by (simp add: replace_all_def)

lemma replace_all_Cons: "replace_all c r (x # xs) = (if x = c then r else [x]) @ replace_all c r xs"
  by (simp add: replace_all_def)

lemma replace_all_append: "replace_all c r (xs @ ys) = replace_all c r xs @ replace_all c r ys"
  by (simp add: replace_all_def)

lemma escape_prompt_chars: "escape_prompt s = concat (map escape_char s)"
proof (induction s)
  case Nil
  show ?case by (simp add: escape_prompt_def replace_all_def)
next
  case (Cons x xs)
  have "escape_prompt (x # xs) = escape_char x @ escape_prompt xs"
    by (simp add: escape_prompt_def escape_char_def replace_all_Nil replace_all_Cons replace_all_append)
  then show ?case
    using Cons.IH by simp
qed

lemma execAsync_trace: "snd (execAsync e tr cmd opts) = tr @ [Exec cmd opts]"
  by (simp add: execAsync_def)

lemma chatViaCLI_trace:
  "messages \<noteq> [] \<Longrightarrow>
   snd (chatViaCLI e tr model messages) =
     tr @ [Exec (run_command (escape_prompt (content (last messages))) model) run_options]"
  using execAsync_trace [of e tr "run_command (escape_prompt (content (last messages))) model" run_options]
  by (auto simp: chatViaCLI_def Let_def split: prod.split sum.split)

lemma generateViaCLI_trace:
  "snd (generateViaCLI e tr model prompt) =
     tr @ [Exec (run_command (escape_prompt prompt) model) run_options]"
  using execAsync_trace [of e tr "run_command (escape_prompt prompt) model" run_options]
  by (auto simp: generateViaCLI_def Let_def split: prod.split sum.split)

text \<open>
  C9. The escaped prompt is the source text with a backslash put in front of every
  double quote and every dollar sign and nothing else changed; a backtick and a
  backslash stay as they are. For a chat request in command-line mode the command
  handed to the shell is \<^verbatim>\<open>echo "..." | ollama run model\<close> with the escaped content
  of the last message between the quotes, and for a generate request the same with
  the escaped prompt; it is the one event the request adds to the trace.
\<close>

theorem cli_prompt_escaping:
  "escape_prompt s = concat (map escape_char s) \<and>
   escape_char (CHR 0x22) = [CHR 0x5C, CHR 0x22] \<and>
   escape_char (CHR 0x24) = [CHR 0x5C, CHR 0x24] \<and>
   escape_char (CHR 0x60) = [CHR 0x60] \<and>
   escape_char (CHR 0x5C) = [CHR 0x5C] \<and>
   (c \<noteq> CHR 0x22 \<and> c \<noteq> CHR 0x24 \<longrightarrow> escape_char c = [c]) \<and>
   (mode_of a = CliFallback \<and> messages \<noteq> [] \<longrightarrow>
      snd (snd (handle e a tr (PostChat model messages False options))) =
        tr @ [Exec (''echo '' @ [CHR 0x22] @ concat (map escape_char (content (last messages))) @
                    [CHR 0x22] @ '' | ollama run '' @ model) run_options]) \<and>
   (mode_of a = CliFallback \<longrightarrow>
      snd (snd (handle e a tr (PostGenerate model prompt False options))) =
        tr @ [Exec (''echo '' @ [CHR 0x22] @ concat (map escape_char prompt) @
                    [CHR 0x22] @ '' | ollama run '' @ model) run_options])"
proof -
  have chat: "snd (snd (handle e a tr (PostChat model messages False options))) =
        tr @ [Exec (''echo '' @ [CHR 0x22] @ concat (map escape_char (content (last messages))) @
                    [CHR 0x22] @ '' | ollama run '' @ model) run_options]"
    if "mode_of a = CliFallback" "messages \<noteq> []"
    using that chatViaCLI_trace [of messages e tr model]
    by (auto simp: cli_mode post_chat_def checkOllamaConnection_def run_command_def
          escape_prompt_chars split: prod.split sum.split)
  have gen: "snd (snd (handle e a tr (PostGenerate model prompt False options))) =
        tr @ [Exec (''echo '' @ [CHR 0x22] @ concat (map escape_char prompt) @
                    [CHR 0x22] @ '' | ollama run '' @ model) run_options]"
    if "mode_of a = CliFallback"
    using that generateViaCLI_trace [of e tr model prompt]
    by (auto simp: cli_mode post_generate_def checkOllamaConnection_def run_command_def
          escape_prompt_chars split: prod.split sum.split)
  show ?thesis
    using chat gen by (simp add: escape_prompt_chars escape_char_def)
qed

theorem cli_prompt_escaping_witness:
  "mode_of cli_adapter = CliFallback \<and>
   snd (snd (handle cli_env cli_adapter [] (PostChat ''llama3'' [\<lparr>role = ''user'', content = tricky_prompt\<rparr>] False ''{}''))) =
     [Exec (''echo '' @ [CHR 0x22] @ ''say '' @ [CHR 0x5C, CHR 0x22] @ ''hi'' @ [CHR 0x5C, CHR 0x22] @ '' '' @ [CHR 0x5C] @ ''$HOME '' @
             [CHR 0x60] @ ''id'' @ [CHR 0x60] @ '' '' @ [CHR 0x5C] @ ''n'' @ [CHR 0x22] @ '' | ollama run llama3'') run_options] \<and>
   snd (snd (handle cli_env cli_adapter [] (PostGenerate ''llama3'' tricky_prompt False ''{}''))) =
     [Exec (''echo '' @ [CHR 0x22] @ ''say '' @ [CHR 0x5C, CHR 0x22] @ ''hi'' @ [CHR 0x5C, CHR 0x22] @ '' '' @ [CHR 0x5C] @ ''$HOME '' @
             [CHR 0x60] @ ''id'' @ [CHR 0x60] @ '' '' @ [CHR 0x5C] @ ''n'' @ [CHR 0x22] @ '' | ollama run llama3'') run_options]"
proof -
  have m: "mode_of cli_adapter = CliFallback"
    by (simp add: mode_of_def cli_adapter_def)
  show ?thesis
    using m cli_prompt_escaping [of tricky_prompt "CHR ''a''" cli_adapter
        "[\<lparr>role = ''user'', content = tricky_prompt\<rparr>]" cli_env "[]" "''llama3''" "''{}''" tricky_prompt]
    by (simp add: tricky_prompt_def escape_char_def)
qed



end
